theory Spec2Isabelle
  imports Complex_Main "HOL-Library.AList" "HOL-Library.Sublist"
begin

text \<open>
  A model of the AP rotation daemon (\<^verbatim>\<open>ap/ap_rotate.py\<close>) and of the join-string
  escaping of the QR generator (\<^verbatim>\<open>qr/make_qr.py\<close>): the Python functions as HOL
  functions over an explicit store, what the outside answers as parameters, and the
  properties of the daemon's specification proved or refuted on them.
\<close>

section \<open>Python primitives used by the daemon and the QR generator\<close>

text \<open>
  \<^verbatim>\<open>str.replace(old, new)\<close>: every non-overlapping occurrence of \<open>old\<close>, scanning from
  the left, is replaced by \<open>new\<close>; an empty \<open>old\<close> inserts \<open>new\<close> before every
  character and at the end.
\<close>

fun py_replace :: "string \<Rightarrow> string \<Rightarrow> string \<Rightarrow> string" where
  "py_replace old new [] = (if old = [] then new else [])"
| "py_replace old new (c # cs) =
     (if old = [] then new @ c # py_replace old new cs
      else if prefix old (c # cs) then new @ py_replace old new (drop (length old - 1) cs)
      else c # py_replace old new cs)"

definition backslash :: char where
  "backslash = CHR 0x5C"

definition dquote :: char where
  "dquote = CHR 0x22"

definition digit_char :: "nat \<Rightarrow> char" where
  "digit_char d = ''0123456789'' ! (d mod 10)"

text \<open>\<^verbatim>\<open>str(n)\<close> for a non-negative integer: its decimal digits.\<close>

fun str_nat :: "nat \<Rightarrow> string" where
  "str_nat n = (if n < 10 then [digit_char n] else str_nat (n div 10) @ [digit_char n])"

declare str_nat.simps [simp del]

definition str_int :: "int \<Rightarrow> string" where
  "str_int i = (if i < 0 then CHR ''-'' # str_nat (nat (- i)) else str_nat (nat i))"

text \<open>
  \<^verbatim>\<open>xs[i:]\<close>: a negative start counts from the end and is clamped at the front, a
  start past the end gives the empty list. Note \<^verbatim>\<open>xs[-0:]\<close> is \<^verbatim>\<open>xs[0:]\<close>.
\<close>

definition py_slice_from :: "int \<Rightarrow> 'a list \<Rightarrow> 'a list" where
  "py_slice_from i xs =
     (if i < 0 then drop (nat (int (length xs) + i)) xs else drop (nat i) xs)"

text \<open>JSON scalars, and a JSON object as an insertion-ordered \<^verbatim>\<open>dict\<close>.\<close>

datatype json = JBool bool | JInt int | JStr string

type_synonym dict = "(string \<times> json) list"

definition dict_get :: "dict \<Rightarrow> string \<Rightarrow> json \<Rightarrow> json" where
  "dict_get d k dflt = (case map_of d k of None \<Rightarrow> dflt | Some v \<Rightarrow> v)"

text \<open>\<^verbatim>\<open>d.update(u)\<close>: existing keys keep their position, new keys are appended.\<close>

definition dict_update :: "('k \<times> 'v) list \<Rightarrow> ('k \<times> 'v) list \<Rightarrow> ('k \<times> 'v) list" where
  "dict_update d u = fold (\<lambda>(k, v). AList.update k v) u d"

fun py_str :: "json \<Rightarrow> string" where
  "py_str (JBool b) = (if b then ''True'' else ''False'')"
| "py_str (JInt i) = str_int i"
| "py_str (JStr s) = s"


section \<open>make\_qr.py: the join-string\<close>

definition escape_wifi_string :: "string \<Rightarrow> string" where
  "escape_wifi_string s =
     (let result = s;
          result = py_replace [backslash] [backslash, backslash] result;
          result = py_replace '';'' (backslash # '';'') result;
          result = py_replace '','' (backslash # '','') result;
          result = py_replace [dquote] [backslash, dquote] result;
          result = py_replace '':'' (backslash # '':'') result
      in result)"

definition generate_wifi_qr_string :: "string \<Rightarrow> string \<Rightarrow> string \<Rightarrow> string" where
  "generate_wifi_qr_string ssid password security =
     (let escaped_ssid = escape_wifi_string ssid;
          escaped_password = escape_wifi_string password
      in ''WIFI:T:'' @ security @ '';S:'' @ escaped_ssid @ '';P:'' @ escaped_password @ '';;'')"

text \<open>
  The specification's side of the escaping claim. The five characters the spec lists, the
  escaping of one character as the spec words it, and the decoder the spec's round trip
  speaks of ("removing one level of backslash-escaping"); the repository has no decoder,
  the one who decodes is the device that scans the image.
\<close>

definition special_chars :: "char list" where
  "special_chars = [backslash, CHR '';'', CHR '','', dquote, CHR '':'']"

definition escape_char_spec :: "char \<Rightarrow> string" where
  "escape_char_spec c = (if c \<in> set special_chars then [backslash, c] else [c])"

fun decode_wifi_string_spec :: "string \<Rightarrow> string" where
  "decode_wifi_string_spec [] = []"
| "decode_wifi_string_spec [c] = [c]"
| "decode_wifi_string_spec (c # d # cs) =
     (if c = backslash then d # decode_wifi_string_spec cs
      else c # decode_wifi_string_spec (d # cs))"

definition sample_passphrase :: string where
  "sample_passphrase = ''a'' @ [backslash] @ ''b;c,d'' @ [dquote] @ ''e:f''"

section \<open>ap\_rotate.py: data\<close>

text \<open>
  Times are the values of \<^verbatim>\<open>time.time()\<close>, taken as real numbers: the comparisons and
  the one addition and subtraction the daemon makes are those of the reals.
\<close>

record Credentials =
  interface :: string
  ssid :: string
  password :: string
  created_at :: real
  expires_at :: real
  rotation_reason :: string

record InterfaceStatus =
  status_interface :: string
  enabled :: json
  state :: string
  status_ssid :: string
  status_created_at :: real
  status_expires_at :: real
  time_remaining :: int
  client_count :: nat
  last_rotation_reason :: string
  last_error :: "string option"

record RotationEntry =
  timestamp :: string
  entry_interface :: string
  entry_ssid :: string
  reason :: string
  entry_created_at :: real

text \<open>
  The top-level configuration dict. Its scalar entries are read by key and always present
  (every load starts from a copy of \<^verbatim>\<open>DEFAULT_CONFIG\<close>), so they are the fields of a
  record; entries the daemon never reads are left out. Its \<^verbatim>\<open>"interfaces"\<close> entry is
  not a field: \<^verbatim>\<open>DEFAULT_CONFIG.copy()\<close> is a shallow copy, so every loaded
  configuration holds the one nested dict of the module-level \<^verbatim>\<open>DEFAULT_CONFIG\<close>,
  which lives in the store below.
\<close>

record GlobalConfig =
  rotation_interval_sec :: real
  client_threshold :: int
  min_time_after_clients_sec :: real
  ssid_prefix :: string
  ssid_length :: int
  password_length :: int
  country_code :: string
  log_retention_count :: int
  manual_rotation_cooldown_sec :: real
  dual_ap_mode :: bool

definition DEFAULT_CONFIG :: GlobalConfig where
  "DEFAULT_CONFIG =
     \<lparr> rotation_interval_sec = 300, client_threshold = 5, min_time_after_clients_sec = 120,
       ssid_prefix = ''ssb-'', ssid_length = 6, password_length = 16, country_code = ''AR'',
       log_retention_count = 100, manual_rotation_cooldown_sec = 30, dual_ap_mode = False \<rparr>"

definition DEFAULT_CONFIG_interfaces :: "(string \<times> dict) list" where
  "DEFAULT_CONFIG_interfaces =
     [(''wlan0'', [(''enabled'', JBool True), (''ap_ip'', JStr ''192.168.4.1''),
                   (''ap_netmask'', JStr ''255.255.255.0''),
                   (''dhcp_range_start'', JStr ''192.168.4.10''),
                   (''dhcp_range_end'', JStr ''192.168.4.100''),
                   (''dhcp_lease_time'', JStr ''4h''), (''channel'', JInt 6)]),
      (''wlan1'', [(''enabled'', JBool False), (''ap_ip'', JStr ''192.168.5.1''),
                   (''ap_netmask'', JStr ''255.255.255.0''),
                   (''dhcp_range_start'', JStr ''192.168.5.10''),
                   (''dhcp_range_end'', JStr ''192.168.5.100''),
                   (''dhcp_lease_time'', JStr ''4h''), (''channel'', JInt 11)])]"

text \<open>One scalar entry of the configuration file, and the parsed file.\<close>

datatype setting =
    Set_rotation_interval_sec real
  | Set_client_threshold int
  | Set_min_time_after_clients_sec real
  | Set_ssid_prefix string
  | Set_ssid_length int
  | Set_password_length int
  | Set_country_code string
  | Set_log_retention_count int
  | Set_manual_rotation_cooldown_sec real
  | Set_dual_ap_mode bool

fun apply_setting :: "setting \<Rightarrow> GlobalConfig \<Rightarrow> GlobalConfig" where
  "apply_setting (Set_rotation_interval_sec v) c = c\<lparr>rotation_interval_sec := v\<rparr>"
| "apply_setting (Set_client_threshold v) c = c\<lparr>client_threshold := v\<rparr>"
| "apply_setting (Set_min_time_after_clients_sec v) c = c\<lparr>min_time_after_clients_sec := v\<rparr>"
| "apply_setting (Set_ssid_prefix v) c = c\<lparr>ssid_prefix := v\<rparr>"
| "apply_setting (Set_ssid_length v) c = c\<lparr>ssid_length := v\<rparr>"
| "apply_setting (Set_password_length v) c = c\<lparr>password_length := v\<rparr>"
| "apply_setting (Set_country_code v) c = c\<lparr>country_code := v\<rparr>"
| "apply_setting (Set_log_retention_count v) c = c\<lparr>log_retention_count := v\<rparr>"
| "apply_setting (Set_manual_rotation_cooldown_sec v) c = c\<lparr>manual_rotation_cooldown_sec := v\<rparr>"
| "apply_setting (Set_dual_ap_mode v) c = c\<lparr>dual_ap_mode := v\<rparr>"

record file_config =
  fc_interfaces :: "(string \<times> dict) list option"
  fc_settings :: "setting list"

text \<open>What a file holds. Reading a file as JSON of another shape raises.\<close>

datatype content =
    Text string
  | StatusJson InterfaceStatus
  | CredsJson Credentials
  | RotationsJson "RotationEntry list"
  | ConfigJson file_config

text \<open>What the daemon does to the outside, in order: the ghost trace of a run.\<close>

datatype action =
    StartRotation string string
  | WriteStatus string string
  | WriteHostapdConf string
  | RunQrGenerator string
  | CopyMainQr
  | RestartService string
  | SaveCredentials string
  | AppendRotationLog string
  | UnlinkTrigger string
  | Sleep nat

text \<open>
  The store the daemon runs in: the file system by path, the nested interfaces dict of
  \<^verbatim>\<open>DEFAULT_CONFIG\<close> (shared, by reference, with every loaded configuration and with
  each engine's \<^verbatim>\<open>config\<close>), the heap of \<^verbatim>\<open>Credentials\<close> objects by address, with the
  next free address, and the trace.
\<close>

record world =
  fs :: "string \<rightharpoonup> content"
  default_interfaces :: "(string \<times> dict) list"
  creds_heap :: "nat \<Rightarrow> Credentials"
  next_ref :: nat
  actions :: "action list"

text \<open>
  An engine. \<open>ap_config\<close> is the reference \<^verbatim>\<open>self.config\<close>: the key of the nested
  dict it aliases in the shared interfaces dict. \<open>current_creds\<close> is the address of the
  current \<^verbatim>\<open>Credentials\<close> object. The lock is not a field: the model runs the one
  scheduler thread, where it is free at every call and released at every return.
\<close>

record APInstance =
  ap_interface :: string
  ap_config :: string
  global_config :: GlobalConfig
  current_creds :: "nat option"
  last_manual_rotation :: real
  status_file :: string
  creds_file :: string
  trigger_file :: string
  hostapd_conf :: string
  template_file :: string

record APRotationDaemon =
  config :: GlobalConfig
  running :: bool
  ap_instances :: "(string \<times> APInstance) list"

section \<open>ap\_rotate.py: paths and the environment\<close>

definition CONFIG_PATH :: string where
  "CONFIG_PATH = ''/etc/ssb-ap/config.json''"

definition RUN_DIR :: string where
  "RUN_DIR = ''/var/run/ssb-ap''"

definition LOG_DIR :: string where
  "LOG_DIR = ''/var/log/ssb-ap''"

definition ROTATIONS_LOG_FILE :: string where
  "ROTATIONS_LOG_FILE = LOG_DIR @ ''/rotations.json''"

definition HOSTAPD_TEMPLATE_DIR :: string where
  "HOSTAPD_TEMPLATE_DIR = ''/opt/ssb-wifi-kiosk/ap''"

text \<open>
  What the outside answers during a call is a parameter of the call. A \<open>probe\<close> is what
  one \<^verbatim>\<open>update_status\<close> reads: the clock and \<^verbatim>\<open>get_client_count()\<close>, the number of
  stations the radio reports (0 when the query fails). A \<open>rotate_env\<close> is what one
  \<^verbatim>\<open>rotate_credentials\<close> meets, in the order it asks: the probe of the "rotating"
  status, the draws of \<^verbatim>\<open>secrets.choice\<close>, the clock, whether writing the hostapd
  configuration meets no I/O exception, whether the QR subprocess and the service restart
  return 0 in time, and the probe of the closing status.

  Files in the daemon's own run and log directories are taken to be writable and
  removable (the daemon runs as root and creates both directories when it starts), so the
  handlers that only log such a failure have no branch here; file modes are not modelled.
  The configuration values have the types of the defaults, which leaves the catch-all
  handler of \<^verbatim>\<open>rotate_credentials\<close> without a branch as well.
\<close>

record probe =
  probe_now :: real
  probe_clients :: nat

record rotate_env =
  env_status_start :: probe
  env_ssid_random :: "nat \<Rightarrow> nat"
  env_password_random :: "nat \<Rightarrow> nat"
  env_now :: real
  env_conf_io_ok :: bool
  env_qr_ok :: bool
  env_restart_ok :: bool
  env_status_end :: probe

definition emit :: "action \<Rightarrow> world \<Rightarrow> world" where
  "emit a w = w\<lparr>actions := actions w @ [a]\<rparr>"

text \<open>
  \<^verbatim>\<open>with open(path, 'w') as f: json.dump(value, f)\<close> is two steps on the file itself:
  opening for writing truncates it, and the value (a few hundred bytes, held in the
  buffer of \<open>f\<close>) reaches it when the block closes \<open>f\<close>.
\<close>

definition open_w :: "string \<Rightarrow> world \<Rightarrow> world" where
  "open_w path w = w\<lparr>fs := (fs w)(path \<mapsto> Text [])\<rparr>"

definition dump_close :: "string \<Rightarrow> content \<Rightarrow> world \<Rightarrow> world" where
  "dump_close path c w = w\<lparr>fs := (fs w)(path \<mapsto> c)\<rparr>"

definition write_file :: "string \<Rightarrow> content \<Rightarrow> world \<Rightarrow> world" where
  "write_file path c w = dump_close path c (open_w path w)"

definition unlink :: "string \<Rightarrow> world \<Rightarrow> world" where
  "unlink path w = w\<lparr>fs := (fs w)(path := None)\<rparr>"

section \<open>APInstance\<close>

definition APInstance_init :: "string \<Rightarrow> string \<Rightarrow> GlobalConfig \<Rightarrow> world \<Rightarrow> APInstance" where
  "APInstance_init iface cfg_ref gc w =
     (let specific = HOSTAPD_TEMPLATE_DIR @ ''/hostapd-'' @ iface @ ''-template.conf'' in
      \<lparr> ap_interface = iface, ap_config = cfg_ref, global_config = gc,
        current_creds = None, last_manual_rotation = 0,
        status_file = RUN_DIR @ ''/status-'' @ iface @ ''.json'',
        creds_file = RUN_DIR @ ''/current-'' @ iface @ ''.json'',
        trigger_file = RUN_DIR @ ''/trigger-rotate-'' @ iface,
        hostapd_conf = ''/etc/hostapd/hostapd-'' @ iface @ ''.conf'',
        template_file = (if fs w specific = None
                         then HOSTAPD_TEMPLATE_DIR @ ''/hostapd-template.conf''
                         else specific) \<rparr>)"

text \<open>\<^verbatim>\<open>self.config\<close>, read through the reference.\<close>

definition self_config :: "APInstance \<Rightarrow> world \<Rightarrow> dict" where
  "self_config ap w =
     (case map_of (default_interfaces w) (ap_config ap) of None \<Rightarrow> [] | Some d \<Rightarrow> d)"

text \<open>\<^verbatim>\<open>self.current_creds\<close>, read through the address.\<close>

definition self_creds :: "APInstance \<Rightarrow> world \<Rightarrow> Credentials option" where
  "self_creds ap w = map_option (creds_heap w) (current_creds ap)"

definition ssid_chars :: string where
  "ssid_chars = ''abcdefghijklmnopqrstuvwxyz0123456789''"

definition password_chars :: string where
  "password_chars =
     ''abcdefghijklmnopqrstuvwxyzABCDEFGHIJKLMNOPQRSTUVWXYZ0123456789''"

definition secrets_choice :: "string \<Rightarrow> nat \<Rightarrow> char" where
  "secrets_choice chars draw = chars ! (draw mod length chars)"

definition generate_ssid :: "GlobalConfig \<Rightarrow> (nat \<Rightarrow> nat) \<Rightarrow> string" where
  "generate_ssid gc draws =
     (let prefix = ssid_prefix gc;
          len = ssid_length gc;
          random_part = map (\<lambda>i. secrets_choice ssid_chars (draws i)) [0..<nat len]
      in prefix @ random_part)"

definition generate_password :: "GlobalConfig \<Rightarrow> (nat \<Rightarrow> nat) \<Rightarrow> string" where
  "generate_password gc draws =
     (let len = password_length gc
      in map (\<lambda>i. secrets_choice password_chars (draws i)) [0..<nat len])"

text \<open>
  A template path that holds no text file cannot be read; an I/O exception is taken to
  strike before the configuration file is opened.
\<close>

definition write_hostapd_config ::
  "bool \<Rightarrow> string \<Rightarrow> string \<Rightarrow> APInstance \<Rightarrow> world \<Rightarrow> bool \<times> world" where
  "write_hostapd_config io_ok new_ssid new_password ap w =
     (case fs w (template_file ap) of
        None \<Rightarrow> (False, w)
      | Some (Text template) \<Rightarrow>
          (if \<not> io_ok then (False, w)
           else
             let config_content = py_replace ''{{SSID}}'' new_ssid template;
                 config_content = py_replace ''{{PASSWORD}}'' new_password config_content;
                 config_content = py_replace ''{{CHANNEL}}''
                    (py_str (dict_get (self_config ap w) ''channel'' (JInt 6))) config_content;
                 config_content = py_replace ''{{COUNTRY_CODE}}''
                    (country_code (global_config ap)) config_content
             in (True, emit (WriteHostapdConf (ap_interface ap))
                         (write_file (hostapd_conf ap) (Text config_content) w)))
      | Some _ \<Rightarrow> (False, w))"

definition generate_qr :: "bool \<Rightarrow> APInstance \<Rightarrow> world \<Rightarrow> bool \<times> world" where
  "generate_qr qr_ok ap w =
     (let w1 = emit (RunQrGenerator (ap_interface ap)) w in
      if qr_ok then
        (True, if ap_interface ap = ''wlan0'' then emit CopyMainQr w1 else w1)
      else (False, w1))"

definition restart_hostapd :: "bool \<Rightarrow> APInstance \<Rightarrow> world \<Rightarrow> bool \<times> world" where
  "restart_hostapd restart_ok ap w =
     (let dual_mode = dual_ap_mode (global_config ap);
          service_name = (if dual_mode then ''hostapd@'' @ ap_interface ap else ''hostapd'')
      in (restart_ok, emit (RestartService service_name) w))"

definition save_credentials :: "APInstance \<Rightarrow> world \<Rightarrow> world" where
  "save_credentials ap w =
     (case self_creds ap w of
        None \<Rightarrow> w
      | Some c \<Rightarrow> emit (SaveCredentials (ap_interface ap))
                    (write_file (creds_file ap) (CredsJson c) w))"

definition status_snapshot ::
  "probe \<Rightarrow> string \<Rightarrow> string option \<Rightarrow> APInstance \<Rightarrow> world \<Rightarrow> InterfaceStatus" where
  "status_snapshot p st error ap w =
     (let now = probe_now p;
          cur = self_creds ap w;
          remaining = (case cur of
                         None \<Rightarrow> 0
                       | Some c \<Rightarrow> if expires_at c > now then \<lfloor>expires_at c - now\<rfloor> else 0)
      in \<lparr> status_interface = ap_interface ap,
           enabled = dict_get (self_config ap w) ''enabled'' (JBool True),
           state = st,
           status_ssid = (case cur of None \<Rightarrow> [] | Some c \<Rightarrow> ssid c),
           status_created_at = (case cur of None \<Rightarrow> 0 | Some c \<Rightarrow> created_at c),
           status_expires_at = (case cur of None \<Rightarrow> 0 | Some c \<Rightarrow> expires_at c),
           time_remaining = remaining,
           client_count = probe_clients p,
           last_rotation_reason = (case cur of None \<Rightarrow> [] | Some c \<Rightarrow> rotation_reason c),
           last_error = error \<rparr>)"

definition update_status ::
  "probe \<Rightarrow> string \<Rightarrow> string option \<Rightarrow> APInstance \<Rightarrow> world \<Rightarrow> world" where
  "update_status p st error ap w =
     (let status = status_snapshot p st error ap w;
          w1 = open_w (status_file ap) w;
          w2 = dump_close (status_file ap) (StatusJson status) w1
      in emit (WriteStatus (ap_interface ap) st) w2)"

text \<open>
  The states of the store another process can find while \<^verbatim>\<open>update_status\<close> runs: after
  the file is opened, and after it is closed.
\<close>

definition update_status_states ::
  "probe \<Rightarrow> string \<Rightarrow> string option \<Rightarrow> APInstance \<Rightarrow> world \<Rightarrow> world list" where
  "update_status_states p st error ap w =
     [open_w (status_file ap) w, update_status p st error ap w]"

text \<open>The reader of the LED process (\<^verbatim>\<open>load_status\<close>): no file or no JSON gives nothing.\<close>

definition load_status :: "string \<Rightarrow> world \<Rightarrow> InterfaceStatus option" where
  "load_status path w = (case fs w path of Some (StatusJson s) \<Rightarrow> Some s | _ \<Rightarrow> None)"

definition rotate_credentials ::
  "rotate_env \<Rightarrow> string \<Rightarrow> APInstance \<Rightarrow> world \<Rightarrow> bool \<times> APInstance \<times> world" where
  "rotate_credentials env rsn ap w0 =
     (let w1 = emit (StartRotation (ap_interface ap) rsn) w0;
          w2 = update_status (env_status_start env) ''rotating'' None ap w1;
          new_ssid = generate_ssid (global_config ap) (env_ssid_random env);
          new_password = generate_password (global_config ap) (env_password_random env);
          now = env_now env;
          expires = now + rotation_interval_sec (global_config ap);
          (written, w3) = write_hostapd_config (env_conf_io_ok env) new_ssid new_password ap w2
      in if \<not> written then
           (False, ap, update_status (env_status_end env) ''error''
                         (Some ''Failed to write hostapd config'') ap w3)
         else
           let (qr_done, w4) = generate_qr (env_qr_ok env) ap w3;
               (restarted, w5) = restart_hostapd (env_restart_ok env) ap w4
           in if \<not> restarted then
                (False, ap, update_status (env_status_end env) ''error''
                              (Some ''Failed to restart hostapd'') ap w5)
              else
                let r = next_ref w5;
                    w6 = w5\<lparr>creds_heap := (creds_heap w5)
                              (r := \<lparr> interface = ap_interface ap, ssid = new_ssid,
                                      password = new_password, created_at = now,
                                      expires_at = expires, rotation_reason = rsn \<rparr>),
                            next_ref := Suc r\<rparr>;
                    ap' = ap\<lparr>current_creds := Some r\<rparr>;
                    w7 = save_credentials ap' w6;
                    w8 = update_status (env_status_end env) ''ready'' None ap' w7
                in (True, ap', w8))"

definition check_trigger_file :: "real \<Rightarrow> APInstance \<Rightarrow> world \<Rightarrow> bool \<times> APInstance \<times> world" where
  "check_trigger_file now ap w =
     (if fs w (trigger_file ap) \<noteq> None then
        let w1 = emit (UnlinkTrigger (ap_interface ap)) (unlink (trigger_file ap) w);
            cooldown = manual_rotation_cooldown_sec (global_config ap)
        in if now - last_manual_rotation ap < cooldown then (False, ap, w1)
           else (True, ap\<lparr>last_manual_rotation := now\<rparr>, w1)
      else (False, ap, w))"

definition should_rotate :: "real \<Rightarrow> nat \<Rightarrow> APInstance \<Rightarrow> world \<Rightarrow> bool \<times> string" where
  "should_rotate now clients ap w =
     (case self_creds ap w of
        None \<Rightarrow> (True, ''initial'')
      | Some cur \<Rightarrow>
          let time_since_creation = now - created_at cur;
              threshold = client_threshold (global_config ap);
              min_time = min_time_after_clients_sec (global_config ap)
          in if now \<ge> expires_at cur then (True, ''time_expired'')
             else if int clients \<ge> threshold \<and> time_since_creation \<ge> min_time
                  then (True, ''client_threshold_'' @ str_nat clients)
                  else (False, []))"

section \<open>APRotationDaemon\<close>

text \<open>
  \<^verbatim>\<open>_load_config\<close>. A missing file, or one that is not a JSON configuration, gives the
  defaults. The per-interface entries of the file are merged into the nested dicts the
  shallow copy shares with \<^verbatim>\<open>DEFAULT_CONFIG\<close>: \<^verbatim>\<open>update\<close> changes such a dict in
  place, and a new interface name is added to the shared dict.
\<close>

definition merge_interface :: "string \<times> dict \<Rightarrow> (string \<times> dict) list \<Rightarrow> (string \<times> dict) list" where
  "merge_interface e ifs =
     (case e of (iface, iface_config) \<Rightarrow>
        (case map_of ifs iface of
           Some d \<Rightarrow> AList.update iface (dict_update d iface_config) ifs
         | None \<Rightarrow> AList.update iface iface_config ifs))"

definition load_config :: "world \<Rightarrow> GlobalConfig \<times> world" where
  "load_config w =
     (let cfg = DEFAULT_CONFIG in
      case fs w CONFIG_PATH of
        None \<Rightarrow> (cfg, w)
      | Some (ConfigJson file_cfg) \<Rightarrow>
          (let w1 = (case fc_interfaces file_cfg of
                       None \<Rightarrow> w
                     | Some ifs \<Rightarrow>
                         w\<lparr>default_interfaces := fold merge_interface ifs (default_interfaces w)\<rparr>)
           in (fold apply_setting (fc_settings file_cfg) cfg, w1))
      | Some _ \<Rightarrow> (cfg, w))"



definition handle_signal :: "APRotationDaemon \<Rightarrow> APRotationDaemon" where
  "handle_signal d = d\<lparr>running := False\<rparr>"

definition handle_reload :: "APRotationDaemon \<Rightarrow> world \<Rightarrow> APRotationDaemon \<times> world" where
  "handle_reload d w =
     (let (cfg, w') = load_config w
      in (d\<lparr>config := cfg,
            ap_instances := map (\<lambda>(k, ap). (k, ap\<lparr>global_config := cfg\<rparr>)) (ap_instances d)\<rparr>,
          w'))"

text \<open>
  The body of \<^verbatim>\<open>log_rotation\<close> between reading and writing the file: append, then cut to
  the retention count.
\<close>

definition append_capped :: "int \<Rightarrow> RotationEntry \<Rightarrow> RotationEntry list \<Rightarrow> RotationEntry list" where
  "append_capped retention entry rotations0 =
     (let rotations = rotations0 @ [entry]
      in if int (length rotations) > retention
         then py_slice_from (- retention) rotations
         else rotations)"

text \<open>\<open>stamp\<close> is \<^verbatim>\<open>datetime.now().isoformat()\<close>. A log that is not a JSON list raises.\<close>

definition log_rotation :: "string \<Rightarrow> GlobalConfig \<Rightarrow> Credentials \<Rightarrow> world \<Rightarrow> world" where
  "log_rotation stamp cfg creds w =
     (case (case fs w ROTATIONS_LOG_FILE of
              None \<Rightarrow> Some []
            | Some (RotationsJson rs) \<Rightarrow> Some rs
            | Some _ \<Rightarrow> None) of
        None \<Rightarrow> w
      | Some rotations0 \<Rightarrow>
          let entry = \<lparr> timestamp = stamp, entry_interface = interface creds,
                        entry_ssid = ssid creds, reason = rotation_reason creds,
                        entry_created_at = created_at creds \<rparr>;
              rotations = append_capped (log_retention_count cfg) entry rotations0
          in emit (AppendRotationLog (interface creds))
               (write_file ROTATIONS_LOG_FILE (RotationsJson rotations) w))"

text \<open>\<^verbatim>\<open>self.log_rotation(ap.current_creds)\<close>; without credentials the call raises and logs.\<close>

definition log_current :: "string \<Rightarrow> GlobalConfig \<Rightarrow> APInstance \<Rightarrow> world \<Rightarrow> world" where
  "log_current stamp cfg ap w =
     (case self_creds ap w of None \<Rightarrow> w | Some c \<Rightarrow> log_rotation stamp cfg c w)"

text \<open>The start-up of one engine: the body of the first loop of \<^verbatim>\<open>run\<close>.\<close>

record startup_env =
  se_first :: rotate_env
  se_retry :: rotate_env
  se_status :: probe
  se_stamp :: string

definition startup_engine ::
  "startup_env \<Rightarrow> GlobalConfig \<Rightarrow> APInstance \<Rightarrow> world \<Rightarrow> APInstance \<times> world" where
  "startup_engine env cfg ap w =
     (let (ok, ap1, w1) = rotate_credentials (se_first env) ''startup'' ap w in
      if \<not> ok then
        let w2 = emit (Sleep 5) w1;
            (ok2, ap2, w3) = rotate_credentials (se_retry env) ''startup_retry'' ap1 w2
        in if \<not> ok2
           then (ap2, update_status (se_status env) ''error''
                        (Some ''Startup rotation failed'') ap2 w3)
           else (ap2, w3)
      else (ap1, log_current (se_stamp env) cfg ap1 w1))"

text \<open>One engine in one tick: the body of the inner loop of \<^verbatim>\<open>run\<close>.\<close>

record tick_env =
  te_trigger_now :: real
  te_now :: real
  te_clients :: nat
  te_rotate :: rotate_env
  te_status :: probe
  te_stamp :: string

definition tick_engine ::
  "tick_env \<Rightarrow> GlobalConfig \<Rightarrow> APInstance \<Rightarrow> world \<Rightarrow> APInstance \<times> world" where
  "tick_engine env cfg ap w =
     (let (triggered, ap1, w1) = check_trigger_file (te_trigger_now env) ap w in
      if triggered then
        let (ok, ap2, w2) = rotate_credentials (te_rotate env) ''manual_trigger'' ap1 w1
        in (ap2, if ok then log_current (te_stamp env) cfg ap2 w2 else w2)
      else
        let (rotate, rsn) = should_rotate (te_now env) (te_clients env) ap1 w1 in
        if rotate then
          let (ok, ap2, w2) = rotate_credentials (te_rotate env) rsn ap1 w1
          in (ap2, if ok then log_current (te_stamp env) cfg ap2 w2 else w2)
        else (ap1, update_status (te_status env) ''ready'' None ap1 w1))"

text \<open>\<^verbatim>\<open>for interface, ap in self.ap_instances.items()\<close>, the engines changed in place.\<close>

fun for_engines ::
  "(string \<Rightarrow> APInstance \<Rightarrow> world \<Rightarrow> APInstance \<times> world) \<Rightarrow> (string \<times> APInstance) list \<Rightarrow> world
     \<Rightarrow> (string \<times> APInstance) list \<times> world" where
  "for_engines body [] w = ([], w)"
| "for_engines body ((k, ap) # rest) w =
     (let (ap', w1) = body k ap w;
          (rest', w2) = for_engines body rest w1
      in ((k, ap') # rest', w2))"

definition run_startup ::
  "(string \<Rightarrow> startup_env) \<Rightarrow> APRotationDaemon \<Rightarrow> world \<Rightarrow> APRotationDaemon \<times> world" where
  "run_startup envs d w =
     (let (aps, w') = for_engines (\<lambda>k. startup_engine (envs k) (config d)) (ap_instances d) w
      in (d\<lparr>ap_instances := aps\<rparr>, w'))"

definition run_tick ::
  "(string \<Rightarrow> tick_env) \<Rightarrow> APRotationDaemon \<Rightarrow> world \<Rightarrow> APRotationDaemon \<times> world" where
  "run_tick envs d w =
     (let (aps, w') = for_engines (\<lambda>k. tick_engine (envs k) (config d)) (ap_instances d) w
      in (d\<lparr>ap_instances := aps\<rparr>, emit (Sleep 1) w'))"

text \<open>
  The main loop runs while \<^verbatim>\<open>self.running\<close>; what happens to it is a list of events
  from outside, a signal being handled between two ticks.
\<close>

datatype event = Tick "string \<Rightarrow> tick_env" | SIGHUP | SIGTERM

fun main_loop :: "APRotationDaemon \<Rightarrow> world \<Rightarrow> event list \<Rightarrow> APRotationDaemon \<times> world" where
  "main_loop d w [] = (d, w)"
| "main_loop d w (e # es) =
     (if \<not> running d then (d, w)
      else case e of
             Tick envs \<Rightarrow> (let (d', w') = run_tick envs d w in main_loop d' w' es)
           | SIGHUP \<Rightarrow> (let (d', w') = handle_reload d w in main_loop d' w' es)
           | SIGTERM \<Rightarrow> main_loop (handle_signal d) w es)"

definition run ::
  "(string \<Rightarrow> startup_env) \<Rightarrow> event list \<Rightarrow> APRotationDaemon \<Rightarrow> world \<Rightarrow> APRotationDaemon \<times> world" where
  "run envs events d w = (let (d1, w1) = run_startup envs d w in main_loop d1 w1 events)"

section \<open>Names for the statements, and a concrete run\<close>

text \<open>
  The store in which a rotation meets its gates (the start is logged and the "rotating"
  status published), the outcome of the configuration gate there, what the QR step and the
  restart add to the trace, and the \<^verbatim>\<open>Credentials\<close> object a rotation constructs.
\<close>

definition rotating_world :: "rotate_env \<Rightarrow> string \<Rightarrow> APInstance \<Rightarrow> world \<Rightarrow> world" where
  "rotating_world env rsn ap w =
     update_status (env_status_start env) ''rotating'' None ap
       (emit (StartRotation (ap_interface ap) rsn) w)"

definition config_gate :: "rotate_env \<Rightarrow> string \<Rightarrow> APInstance \<Rightarrow> world \<Rightarrow> bool" where
  "config_gate env rsn ap w =
     fst (write_hostapd_config (env_conf_io_ok env)
            (generate_ssid (global_config ap) (env_ssid_random env))
            (generate_password (global_config ap) (env_password_random env))
            ap (rotating_world env rsn ap w))"

definition qr_actions :: "rotate_env \<Rightarrow> APInstance \<Rightarrow> action list" where
  "qr_actions env ap =
     RunQrGenerator (ap_interface ap) #
       (if env_qr_ok env \<and> ap_interface ap = ''wlan0'' then [CopyMainQr] else [])"

definition service_name :: "APInstance \<Rightarrow> string" where
  "service_name ap =
     (if dual_ap_mode (global_config ap) then ''hostapd@'' @ ap_interface ap else ''hostapd'')"

definition new_credentials :: "rotate_env \<Rightarrow> string \<Rightarrow> APInstance \<Rightarrow> Credentials" where
  "new_credentials env rsn ap =
     \<lparr> interface = ap_interface ap,
       ssid = generate_ssid (global_config ap) (env_ssid_random env),
       password = generate_password (global_config ap) (env_password_random env),
       created_at = env_now env,
       expires_at = env_now env + rotation_interval_sec (global_config ap),
       rotation_reason = rsn \<rparr>"

text \<open>
  A concrete run: a freshly booted store with the generic template and no configuration
  file, the engine for \<^verbatim>\<open>wlan0\<close> built on it, an environment in which everything
  succeeds at time \<open>t\<close> with \<open>n\<close> clients, one in which the service restart fails, and
  the engine and store after the start-up rotation at time 0.
\<close>

definition blank_credentials :: Credentials where
  "blank_credentials =
     \<lparr> interface = [], ssid = [], password = [], created_at = 0, expires_at = 0,
       rotation_reason = [] \<rparr>"

definition boot_world :: world where
  "boot_world =
     \<lparr> fs = [HOSTAPD_TEMPLATE_DIR @ ''/hostapd-template.conf'' \<mapsto>
               Text ''ssid={{SSID}} pass={{PASSWORD}} ch={{CHANNEL}} cc={{COUNTRY_CODE}}''],
       default_interfaces = DEFAULT_CONFIG_interfaces,
       creds_heap = (\<lambda>_. blank_credentials),
       next_ref = 0,
       actions = [] \<rparr>"

definition engine0 :: APInstance where
  "engine0 = APInstance_init ''wlan0'' ''wlan0'' DEFAULT_CONFIG boot_world"

definition calm :: "real \<Rightarrow> nat \<Rightarrow> rotate_env" where
  "calm t n =
     \<lparr> env_status_start = \<lparr> probe_now = t, probe_clients = n \<rparr>,
       env_ssid_random = (\<lambda>i. i),
       env_password_random = (\<lambda>i. 7 * i + 3),
       env_now = t,
       env_conf_io_ok = True, env_qr_ok = True, env_restart_ok = True,
       env_status_end = \<lparr> probe_now = t, probe_clients = n \<rparr> \<rparr>"


definition engine1 :: APInstance where
  "engine1 = fst (snd (rotate_credentials (calm 0 0) ''startup'' engine0 boot_world))"

definition world1 :: world where
  "world1 = snd (snd (rotate_credentials (calm 0 0) ''startup'' engine0 boot_world))"

definition marked_world :: world where
  "marked_world = world1\<lparr>fs := (fs world1)(trigger_file engine1 \<mapsto> Text [])\<rparr>"





fun attempts :: "action list \<Rightarrow> (string \<times> string) list" where
  "attempts [] = []"
| "attempts (StartRotation iface rsn # as) = (iface, rsn) # attempts as"
| "attempts (a # as) = attempts as"

definition first_ok :: "startup_env \<Rightarrow> APInstance \<Rightarrow> world \<Rightarrow> bool" where
  "first_ok env ap w = fst (rotate_credentials (se_first env) ''startup'' ap w)"



definition refresh_probe :: probe where
  "refresh_probe = \<lparr> probe_now = 20, probe_clients = 3 \<rparr>"

definition sample_entry :: "nat \<Rightarrow> RotationEntry" where
  "sample_entry k =
     \<lparr> timestamp = str_nat k, entry_interface = ''wlan0'', entry_ssid = ''ssb-abcdef'',
       reason = ''time_expired'', entry_created_at = real k \<rparr>"

definition no_retention :: GlobalConfig where
  "no_retention = DEFAULT_CONFIG\<lparr>log_retention_count := 0\<rparr>"

definition rotations_logged :: "world \<Rightarrow> RotationEntry list" where
  "rotations_logged w =
     (case fs w ROTATIONS_LOG_FILE of Some (RotationsJson rs) \<Rightarrow> rs | _ \<Rightarrow> [])"





text \<open>The reasons of the rotation attempts made for one interface, in order.\<close>

definition attempts_of :: "string \<Rightarrow> action list \<Rightarrow> string list" where
  "attempts_of k as = map snd (filter (\<lambda>a. fst a = k) (attempts as))"

section \<open>The join-string escaping\<close>

lemma py_replace_single:
  "py_replace [a] new s = concat (map (\<lambda>c. if c = a then new else [c]) s)"
  by (induction s) auto

lemma escape_wifi_string_append:
  "escape_wifi_string (xs @ ys) = escape_wifi_string xs @ escape_wifi_string ys"
  by (simp add: escape_wifi_string_def py_replace_single)

lemma escape_wifi_string_single: "escape_wifi_string [c] = escape_char_spec c"
  by (simp add: escape_wifi_string_def escape_char_spec_def special_chars_def
      backslash_def dquote_def)

lemma escape_wifi_string_Nil: "escape_wifi_string [] = []"
  by (simp add: escape_wifi_string_def)

lemma escape_wifi_string_Cons:
  "escape_wifi_string (c # s) = escape_char_spec c @ escape_wifi_string s"
  using escape_wifi_string_append [of "[c]" s] by (simp add: escape_wifi_string_single)

lemma escape_wifi_string_chars: "escape_wifi_string s = concat (map escape_char_spec s)"
  by (induction s) (simp_all add: escape_wifi_string_Nil escape_wifi_string_Cons)

lemma decode_escape: "decode_wifi_string_spec (escape_wifi_string s) = s"
proof (induction s)
  case Nil
  then show ?case by (simp add: escape_wifi_string_Nil)
next
  case (Cons c s)
  show ?case
  proof (cases "c \<in> set special_chars")
    case True
    then show ?thesis
      using Cons by (simp add: escape_wifi_string_Cons escape_char_spec_def)
  next
    case False
    then have nb: "c \<noteq> backslash"
      by (auto simp: special_chars_def)
    show ?thesis
    proof (cases "escape_wifi_string s")
      case Nil
      then show ?thesis
        using Cons False by (simp add: escape_wifi_string_Cons escape_char_spec_def)
    next
      case (Cons d ds)
      then show ?thesis
        using Cons.IH False nb by (simp add: escape_wifi_string_Cons escape_char_spec_def)
    qed
  qed
qed

text \<open>
  C4. \<open>escape_wifi_string\<close> rewrites a string character by character: each of the five
  characters backslash, semicolon, comma, double quote and colon becomes a backslash
  followed by the character, once (the backslashes it adds are not escaped again), and
  every other character stays. Removing one level of backslash-escaping gives the
  original string back, for every string; so the escaping is injective; and the
  passphrase \<^verbatim>\<open>a\b;c,d"e:f\<close> makes the round trip.
\<close>

theorem escape_wifi_string_round_trip:
  "escape_wifi_string s = concat (map escape_char_spec s)
   \<and> decode_wifi_string_spec (escape_wifi_string s) = s
   \<and> inj escape_wifi_string
   \<and> decode_wifi_string_spec (escape_wifi_string sample_passphrase) = sample_passphrase"
proof -
  have "inj escape_wifi_string"
    by (rule inj_on_inverseI [where g = decode_wifi_string_spec]) (simp add: decode_escape)
  then show ?thesis
    by (simp add: escape_wifi_string_chars [symmetric] decode_escape)
qed

theorem escape_wifi_string_round_trip_witness:
  "escape_wifi_string sample_passphrase =
     ''a'' @ [backslash, backslash] @ ''b'' @ [backslash] @ '';c'' @ [backslash] @ '',d''
       @ [backslash, dquote] @ ''e'' @ [backslash] @ '':f''
   \<and> decode_wifi_string_spec (escape_wifi_string sample_passphrase) = sample_passphrase"
  using escape_wifi_string_round_trip [of sample_passphrase]
  by (simp add: sample_passphrase_def escape_char_spec_def special_chars_def
      backslash_def dquote_def)

section \<open>The engine: frames and the ways out of a rotation\<close>

lemma emit_simps [simp]:
  "fs (emit a w) = fs w" "creds_heap (emit a w) = creds_heap w"
  "next_ref (emit a w) = next_ref w" "default_interfaces (emit a w) = default_interfaces w"
  "actions (emit a w) = actions w @ [a]"
  by (simp_all add: emit_def)

lemma write_file_simps [simp]:
  "fs (write_file p c w) = (fs w)(p \<mapsto> c)" "creds_heap (write_file p c w) = creds_heap w"
  "next_ref (write_file p c w) = next_ref w"
  "default_interfaces (write_file p c w) = default_interfaces w"
  "actions (write_file p c w) = actions w"
  by (simp_all add: write_file_def dump_close_def open_w_def)

lemma self_creds_cong:
  "creds_heap w' = creds_heap w \<Longrightarrow> self_creds ap w' = self_creds ap w"
  by (simp add: self_creds_def)

lemma self_config_cong:
  "default_interfaces w' = default_interfaces w \<Longrightarrow> self_config ap w' = self_config ap w"
  by (simp add: self_config_def)

lemma status_snapshot_cong:
  "creds_heap w' = creds_heap w \<Longrightarrow> default_interfaces w' = default_interfaces w \<Longrightarrow>
   status_snapshot p st e ap w' = status_snapshot p st e ap w"
  by (simp add: status_snapshot_def self_creds_def self_config_def)

lemma update_status_simps [simp]:
  "fs (update_status p st e ap w) = (fs w)(status_file ap \<mapsto> StatusJson (status_snapshot p st e ap w))"
  "creds_heap (update_status p st e ap w) = creds_heap w"
  "next_ref (update_status p st e ap w) = next_ref w"
  "default_interfaces (update_status p st e ap w) = default_interfaces w"
  "actions (update_status p st e ap w) = actions w @ [WriteStatus (ap_interface ap) st]"
  by (simp_all add: update_status_def Let_def dump_close_def open_w_def)

lemma load_status_update [simp]:
  "load_status (status_file ap) (update_status p st e ap w) = Some (status_snapshot p st e ap w)"
  by (simp add: load_status_def)

lemma write_hostapd_config_fst:
  "fst (write_hostapd_config io s p ap w) = (io \<and> (\<exists>t. fs w (template_file ap) = Some (Text t)))"
  by (auto simp: write_hostapd_config_def Let_def split: option.splits content.splits)

lemma write_hostapd_config_frame [simp]:
  "creds_heap (snd (write_hostapd_config io s p ap w)) = creds_heap w"
  "next_ref (snd (write_hostapd_config io s p ap w)) = next_ref w"
  "default_interfaces (snd (write_hostapd_config io s p ap w)) = default_interfaces w"
  by (simp_all add: write_hostapd_config_def Let_def split: option.splits content.splits)

lemma write_hostapd_config_actions:
  "actions (snd (write_hostapd_config io s p ap w)) =
     actions w @ (if fst (write_hostapd_config io s p ap w) then [WriteHostapdConf (ap_interface ap)] else [])"
  by (simp add: write_hostapd_config_def Let_def split: option.splits content.splits)

lemma write_hostapd_config_fail:
  "\<not> fst (write_hostapd_config io s p ap w) \<Longrightarrow> snd (write_hostapd_config io s p ap w) = w"
  by (simp add: write_hostapd_config_def Let_def split: option.splits content.splits if_splits)

lemma generate_qr_simps [simp]:
  "fst (generate_qr ok ap w) = ok"
  "fs (snd (generate_qr ok ap w)) = fs w"
  "creds_heap (snd (generate_qr ok ap w)) = creds_heap w"
  "next_ref (snd (generate_qr ok ap w)) = next_ref w"
  "default_interfaces (snd (generate_qr ok ap w)) = default_interfaces w"
  by (simp_all add: generate_qr_def Let_def)

lemma generate_qr_actions:
  "actions (snd (generate_qr (env_qr_ok env) ap w)) = actions w @ qr_actions env ap"
  by (simp add: generate_qr_def qr_actions_def Let_def)

lemma restart_hostapd_simps [simp]:
  "fst (restart_hostapd ok ap w) = ok"
  "fs (snd (restart_hostapd ok ap w)) = fs w"
  "creds_heap (snd (restart_hostapd ok ap w)) = creds_heap w"
  "next_ref (snd (restart_hostapd ok ap w)) = next_ref w"
  "default_interfaces (snd (restart_hostapd ok ap w)) = default_interfaces w"
  "actions (snd (restart_hostapd ok ap w)) = actions w @ [RestartService (service_name ap)]"
  by (simp_all add: restart_hostapd_def service_name_def Let_def)

lemma rotating_world_simps [simp]:
  "creds_heap (rotating_world env rsn ap w) = creds_heap w"
  "next_ref (rotating_world env rsn ap w) = next_ref w"
  "default_interfaces (rotating_world env rsn ap w) = default_interfaces w"
  "actions (rotating_world env rsn ap w) =
     actions w @ [StartRotation (ap_interface ap) rsn, WriteStatus (ap_interface ap) ''rotating'']"
  by (simp_all add: rotating_world_def)

lemma rotate_config_failed:
  assumes "\<not> config_gate env rsn ap w"
  shows "rotate_credentials env rsn ap w =
           (False, ap, update_status (env_status_end env) ''error''
                         (Some ''Failed to write hostapd config'') ap (rotating_world env rsn ap w))"
  using assms write_hostapd_config_fail
  by (simp add: rotate_credentials_def config_gate_def rotating_world_def Let_def split_beta)

lemma rotate_restart_failed:
  assumes "config_gate env rsn ap w" and "\<not> env_restart_ok env"
  shows "rotate_credentials env rsn ap w =
           (False, ap, update_status (env_status_end env) ''error''
              (Some ''Failed to restart hostapd'') ap
              (snd (restart_hostapd False ap
                 (snd (generate_qr (env_qr_ok env) ap
                    (snd (write_hostapd_config True
                            (generate_ssid (global_config ap) (env_ssid_random env))
                            (generate_password (global_config ap) (env_password_random env))
                            ap (rotating_world env rsn ap w))))))))"
proof -
  from assms(1) have io: "env_conf_io_ok env"
    by (simp add: config_gate_def write_hostapd_config_fst)
  show ?thesis
    using assms io
    by (simp add: rotate_credentials_def config_gate_def rotating_world_def Let_def split_beta)
qed

lemma save_credentials_simps [simp]:
  "creds_heap (save_credentials ap w) = creds_heap w"
  "next_ref (save_credentials ap w) = next_ref w"
  "default_interfaces (save_credentials ap w) = default_interfaces w"
  by (simp_all add: save_credentials_def split: option.splits)

lemma save_credentials_some:
  "current_creds ap = Some r \<Longrightarrow>
   save_credentials ap w =
     emit (SaveCredentials (ap_interface ap)) (write_file (creds_file ap) (CredsJson (creds_heap w r)) w)"
  by (simp add: save_credentials_def self_creds_def)

lemma rotate_succeeded:
  assumes "config_gate env rsn ap w" and "env_restart_ok env"
  shows "\<exists>w'. rotate_credentials env rsn ap w = (True, ap\<lparr>current_creds := Some (next_ref w)\<rparr>, w')
           \<and> next_ref w' = Suc (next_ref w)
           \<and> creds_heap w' = (creds_heap w)(next_ref w := new_credentials env rsn ap)
           \<and> default_interfaces w' = default_interfaces w
           \<and> load_status (status_file ap) w' =
                Some (status_snapshot (env_status_end env) ''ready'' None
                       (ap\<lparr>current_creds := Some (next_ref w)\<rparr>) w')
           \<and> actions w' = actions w @
                [StartRotation (ap_interface ap) rsn, WriteStatus (ap_interface ap) ''rotating'',
                 WriteHostapdConf (ap_interface ap)] @ qr_actions env ap @
                [RestartService (service_name ap), SaveCredentials (ap_interface ap),
                 WriteStatus (ap_interface ap) ''ready'']"
proof -
  from assms(1) have io: "env_conf_io_ok env"
    by (simp add: config_gate_def write_hostapd_config_fst)
  let ?s = "generate_ssid (global_config ap) (env_ssid_random env)"
  let ?p = "generate_password (global_config ap) (env_password_random env)"
  let ?w2 = "rotating_world env rsn ap w"
  from assms(1) io have g: "fst (write_hostapd_config True ?s ?p ap ?w2)"
    by (simp add: config_gate_def)
  show ?thesis
    using assms io g
    by (simp add: rotate_credentials_def config_gate_def rotating_world_def [symmetric] Let_def
        split_beta save_credentials_some new_credentials_def generate_qr_actions
        write_hostapd_config_actions load_status_def
        status_snapshot_cong [where w' = "emit a (write_file p c w)" for a p c w])
qed

lemma write_hostapd_config_fs:
  "p \<noteq> hostapd_conf ap \<Longrightarrow> fs (snd (write_hostapd_config io s pw ap w)) p = fs w p"
  by (simp add: write_hostapd_config_def Let_def split: option.splits content.splits)

lemma save_credentials_fs:
  "p \<noteq> creds_file ap \<Longrightarrow> fs (save_credentials ap w) p = fs w p"
  by (simp add: save_credentials_def split: option.splits)

lemma rotate_fs_frame:
  assumes "p \<noteq> status_file ap" and "p \<noteq> hostapd_conf ap" and "p \<noteq> creds_file ap"
  shows "fs (snd (snd (rotate_credentials env rsn ap w))) p = fs w p"
  using assms
  by (simp add: rotate_credentials_def Let_def split_beta write_hostapd_config_fs
      save_credentials_fs)

lemma rotate_ok_iff:
  "fst (rotate_credentials env rsn ap w) = (config_gate env rsn ap w \<and> env_restart_ok env)"
  using rotate_succeeded [of env rsn ap w] rotate_config_failed [of env rsn ap w]
    rotate_restart_failed [of env rsn ap w]
  by (cases "config_gate env rsn ap w"; cases "env_restart_ok env") auto

lemma boot_gate: "config_gate (calm t n) rsn engine0 boot_world"
  by (simp add: config_gate_def write_hostapd_config_fst rotating_world_def engine0_def APInstance_init_def boot_world_def
      HOSTAPD_TEMPLATE_DIR_def RUN_DIR_def calm_def Let_def)

section \<open>The concrete run\<close>

lemma first_rotation:
  "rotate_credentials (calm 0 0) ''startup'' engine0 boot_world = (True, engine1, world1)"
  using rotate_ok_iff [of "calm 0 0" "''startup''" engine0 boot_world] boot_gate [of 0 0 "''startup''"]
  by (simp add: engine1_def world1_def calm_def prod_eq_iff)

lemma engine1_eq: "engine1 = engine0\<lparr>current_creds := Some 0\<rparr>"
  using rotate_succeeded [OF boot_gate, of 0 0 "''startup''"] first_rotation
  by (auto simp: calm_def boot_world_def)

lemma world1_heap:
  "next_ref world1 = 1"
  "creds_heap world1 0 = new_credentials (calm 0 0) ''startup'' engine0"
  "default_interfaces world1 = DEFAULT_CONFIG_interfaces"
  using rotate_succeeded [OF boot_gate, of 0 0 "''startup''"] first_rotation
  by (auto simp: calm_def boot_world_def)

lemma engine0_fields:
  "ap_interface engine0 = ''wlan0''" "ap_config engine0 = ''wlan0''"
  "global_config engine0 = DEFAULT_CONFIG" "current_creds engine0 = None"
  "last_manual_rotation engine0 = 0"
  "status_file engine0 = ''/var/run/ssb-ap/status-wlan0.json''"
  "creds_file engine0 = ''/var/run/ssb-ap/current-wlan0.json''"
  "trigger_file engine0 = ''/var/run/ssb-ap/trigger-rotate-wlan0''"
  "hostapd_conf engine0 = ''/etc/hostapd/hostapd-wlan0.conf''"
  "template_file engine0 = ''/opt/ssb-wifi-kiosk/ap/hostapd-template.conf''"
  by (simp_all add: engine0_def APInstance_init_def boot_world_def HOSTAPD_TEMPLATE_DIR_def
      RUN_DIR_def Let_def)

lemma first_credentials:
  "new_credentials (calm 0 0) ''startup'' engine0 =
     \<lparr> interface = ''wlan0'', ssid = ''ssb-abcdef'', password = ''dkryFMT07elszGNU'',
       created_at = 0, expires_at = 300, rotation_reason = ''startup'' \<rparr>"
  by (simp add: new_credentials_def engine0_fields calm_def generate_ssid_def
      generate_password_def DEFAULT_CONFIG_def secrets_choice_def ssid_chars_def
      password_chars_def upt_rec)

lemma world1_files:
  "fs world1 ''/opt/ssb-wifi-kiosk/ap/hostapd-template.conf'' =
     Some (Text ''ssid={{SSID}} pass={{PASSWORD}} ch={{CHANNEL}} cc={{COUNTRY_CODE}}'')"
  "fs world1 ''/var/run/ssb-ap/trigger-rotate-wlan0'' = None"
  using rotate_fs_frame [of "template_file engine0" engine0 "calm 0 0" "''startup''" boot_world]
    rotate_fs_frame [of "trigger_file engine0" engine0 "calm 0 0" "''startup''" boot_world]
  by (simp_all add: first_rotation engine0_fields) (simp_all add: boot_world_def HOSTAPD_TEMPLATE_DIR_def)


section \<open>The rotation decision\<close>

text \<open>
  C1. \<open>should_rotate\<close>, from the engine's current credentials, the current time and the
  live client count, answers: rotate with reason "initial" when there are no credentials;
  otherwise rotate with "time\_expired" when the time has reached the expiry, whatever the
  client count; otherwise rotate with "client\_threshold\_" and the count when the count
  has reached the threshold and the age since creation the minimum time; otherwise do not
  rotate (reason empty). The checks apply in this order.
\<close>

theorem should_rotate_decision:
  "(current_creds ap = None \<longrightarrow> should_rotate now n ap w = (True, ''initial''))
   \<and> (\<forall>r. current_creds ap = Some r \<and> expires_at (creds_heap w r) \<le> now
          \<longrightarrow> should_rotate now n ap w = (True, ''time_expired''))
   \<and> (\<forall>r. current_creds ap = Some r \<and> now < expires_at (creds_heap w r)
          \<and> client_threshold (global_config ap) \<le> int n
          \<and> min_time_after_clients_sec (global_config ap) \<le> now - created_at (creds_heap w r)
          \<longrightarrow> should_rotate now n ap w = (True, ''client_threshold_'' @ str_nat n))
   \<and> (\<forall>r. current_creds ap = Some r \<and> now < expires_at (creds_heap w r)
          \<and> \<not> (client_threshold (global_config ap) \<le> int n
               \<and> min_time_after_clients_sec (global_config ap) \<le> now - created_at (creds_heap w r))
          \<longrightarrow> should_rotate now n ap w = (False, []))"
  by (auto simp: should_rotate_def self_creds_def Let_def)

theorem should_rotate_decision_witness:
  "should_rotate 0 0 engine0 boot_world = (True, ''initial'')
   \<and> should_rotate 150 6 engine1 world1 = (True, ''client_threshold_6'')
   \<and> should_rotate 299 0 engine1 world1 = (False, [])
   \<and> should_rotate 119 6 engine1 world1 = (False, [])
   \<and> should_rotate 301 9 engine1 world1 = (True, ''time_expired'')"
proof -
  have c: "current_creds engine1 = Some 0" "global_config engine1 = DEFAULT_CONFIG"
    by (simp_all add: engine1_eq engine0_fields)
  note h = world1_heap(2) first_credentials DEFAULT_CONFIG_def
  have "should_rotate 0 0 engine0 boot_world = (True, ''initial'')"
    using should_rotate_decision [of engine0 0 0 boot_world] by (simp add: engine0_fields)
  moreover have "should_rotate 150 6 engine1 world1 = (True, ''client_threshold_6'')"
    using should_rotate_decision [of engine1 150 6 world1] c
    by (simp add: h str_nat.simps digit_char_def)
  moreover have "should_rotate 299 0 engine1 world1 = (False, [])"
    using should_rotate_decision [of engine1 299 0 world1] c by (simp add: h)
  moreover have "should_rotate 119 6 engine1 world1 = (False, [])"
    using should_rotate_decision [of engine1 119 6 world1] c by (simp add: h)
  moreover have "should_rotate 301 9 engine1 world1 = (True, ''time_expired'')"
    using should_rotate_decision [of engine1 301 9 world1] c by (simp add: h)
  ultimately show ?thesis by simp
qed

section \<open>A rotation that fails at a gate\<close>

lemma status_snapshot_fields [simp]:
  "state (status_snapshot p st e ap w) = st"
  "last_error (status_snapshot p st e ap w) = e"
  "client_count (status_snapshot p st e ap w) = probe_clients p"
  "status_interface (status_snapshot p st e ap w) = ap_interface ap"
  by (simp_all add: status_snapshot_def Let_def)



lemma engine1_fields:
  "ap_interface engine1 = ''wlan0''" "global_config engine1 = DEFAULT_CONFIG"
  "current_creds engine1 = Some 0"
  "status_file engine1 = ''/var/run/ssb-ap/status-wlan0.json''"
  "trigger_file engine1 = ''/var/run/ssb-ap/trigger-rotate-wlan0''"
  "last_manual_rotation engine1 = 0"
  by (simp_all add: engine1_eq engine0_fields)



section \<open>The manual trigger, and the credentials a rotation makes\<close>

text \<open>
  C5. When the trigger marker exists, \<open>check_trigger_file\<close> deletes it, whether it
  accepts or rejects the request, and changes no other file; it returns true exactly when
  the cooldown has elapsed since the last manual rotation (the time since then is not
  below the cooldown), and only then records the time. When the marker is absent it
  returns false and changes nothing, neither the engine nor the store.
\<close>

theorem check_trigger_file_consumes:
  "(fs w (trigger_file ap) \<noteq> None \<longrightarrow>
      (\<exists>w'. check_trigger_file now ap w =
               (manual_rotation_cooldown_sec (global_config ap) \<le> now - last_manual_rotation ap,
                (if manual_rotation_cooldown_sec (global_config ap) \<le> now - last_manual_rotation ap
                 then ap\<lparr>last_manual_rotation := now\<rparr> else ap),
                w')
            \<and> fs w' = (fs w)(trigger_file ap := None)
            \<and> actions w' = actions w @ [UnlinkTrigger (ap_interface ap)]))
   \<and> (fs w (trigger_file ap) = None \<longrightarrow> check_trigger_file now ap w = (False, ap, w))"
  by (simp add: check_trigger_file_def Let_def unlink_def not_less)

theorem check_trigger_file_consumes_witness:
  "fs marked_world (trigger_file engine1) \<noteq> None
   \<and> (\<exists>w'. check_trigger_file 100 engine1 marked_world
              = (True, engine1\<lparr>last_manual_rotation := 100\<rparr>, w')
          \<and> fs w' (trigger_file engine1) = None)
   \<and> (\<exists>w'. check_trigger_file 110 (engine1\<lparr>last_manual_rotation := 100\<rparr>) marked_world
              = (False, engine1\<lparr>last_manual_rotation := 100\<rparr>, w')
          \<and> fs w' (trigger_file engine1) = None)
   \<and> check_trigger_file 100 engine1 world1 = (False, engine1, world1)"
proof -
  have m: "fs marked_world (trigger_file engine1) \<noteq> None"
    by (simp add: marked_world_def)
  have a: "fs world1 (trigger_file engine1) = None"
    by (simp add: engine1_fields world1_files)
  have cd: "manual_rotation_cooldown_sec (global_config engine1) = 30"
    by (simp add: engine1_fields DEFAULT_CONFIG_def)
  from check_trigger_file_consumes [of marked_world engine1 100] m
  have 1: "\<exists>w'. check_trigger_file 100 engine1 marked_world
              = (True, engine1\<lparr>last_manual_rotation := 100\<rparr>, w')
          \<and> fs w' (trigger_file engine1) = None"
    by (auto simp: engine1_fields DEFAULT_CONFIG_def)
  from check_trigger_file_consumes [of marked_world "engine1\<lparr>last_manual_rotation := 100\<rparr>" 110] m
  have 2: "\<exists>w'. check_trigger_file 110 (engine1\<lparr>last_manual_rotation := 100\<rparr>) marked_world
              = (False, engine1\<lparr>last_manual_rotation := 100\<rparr>, w')
          \<and> fs w' (trigger_file engine1) = None"
    by (auto simp: engine1_fields DEFAULT_CONFIG_def)
  from check_trigger_file_consumes [of world1 engine1 100] a
  have 3: "check_trigger_file 100 engine1 world1 = (False, engine1, world1)"
    by simp
  from m 1 2 3 show ?thesis by blast
qed





section \<open>The tick after a failed rotation\<close>







section \<open>Start-up\<close>

lemma attempts_append [simp]: "attempts (xs @ ys) = attempts xs @ attempts ys"
  by (induction xs rule: attempts.induct) simp_all

lemma attempts_qr [simp]: "attempts (qr_actions env ap) = []"
  by (simp add: qr_actions_def)

lemma rotate_attempts:
  "attempts (actions (snd (snd (rotate_credentials env rsn ap w)))) =
     attempts (actions w) @ [(ap_interface ap, rsn)]"
proof (cases "config_gate env rsn ap w")
  case False
  then show ?thesis by (simp add: rotate_config_failed)
next
  case True
  note g = this
  show ?thesis
  proof (cases "env_restart_ok env")
    case True
    with rotate_succeeded [OF g this, of ] show ?thesis by auto
  next
    case False
    from g have io: "env_conf_io_ok env"
      by (simp add: config_gate_def write_hostapd_config_fst)
    from g io have "fst (write_hostapd_config True
                            (generate_ssid (global_config ap) (env_ssid_random env))
                            (generate_password (global_config ap) (env_password_random env))
                            ap (rotating_world env rsn ap w))"
      by (simp add: config_gate_def)
    with False g show ?thesis
      by (simp add: rotate_restart_failed generate_qr_actions write_hostapd_config_actions)
  qed
qed


lemma rotate_engine:
  "fst (snd (rotate_credentials env rsn ap w)) =
     (if fst (rotate_credentials env rsn ap w) then ap\<lparr>current_creds := Some (next_ref w)\<rparr> else ap)"
  using rotate_succeeded [of env rsn ap w] rotate_config_failed [of env rsn ap w]
    rotate_restart_failed [of env rsn ap w] rotate_ok_iff [of env rsn ap w]
  by (cases "config_gate env rsn ap w"; cases "env_restart_ok env") auto

lemma log_current_attempts [simp]:
  "attempts (actions (log_current stamp cfg ap w)) = attempts (actions w)"
  by (simp add: log_current_def log_rotation_def Let_def split: option.splits content.splits)




text \<open>
  The whole first loop of \<^verbatim>\<open>run\<close>: when the engine map is keyed by the engines' own
  interface names, every engine gets its one or two start-up attempts and no interface
  without an engine gets any.
\<close>

lemma startup_engine_new_attempts:
  "attempts (actions (snd (startup_engine env cfg ap w))) =
     attempts (actions w) @
       (if first_ok env ap w then [(ap_interface ap, ''startup'')]
        else [(ap_interface ap, ''startup''), (ap_interface ap, ''startup_retry'')])
   \<and> ap_interface (fst (startup_engine env cfg ap w)) = ap_interface ap"
proof -
  let ?r1 = "rotate_credentials (se_first env) ''startup'' ap w"
  let ?w2 = "emit (Sleep 5) (snd (snd ?r1))"
  let ?r2 = "rotate_credentials (se_retry env) ''startup_retry'' ap ?w2"
  have i1: "ap_interface (fst (snd ?r1)) = ap_interface ap"
    by (simp add: rotate_engine)
  have i2: "ap_interface (fst (snd ?r2)) = ap_interface ap"
    by (simp add: rotate_engine)
  have e1: "\<not> fst ?r1 \<Longrightarrow> fst (snd ?r1) = ap"
    by (simp add: rotate_engine)
  show ?thesis
    using rotate_attempts [of "se_first env" "''startup''" ap w]
      rotate_attempts [of "se_retry env" "''startup_retry''" ap ?w2] i1 i2 e1
    by (simp add: startup_engine_def first_ok_def split_beta Let_def)
qed

lemma attempts_of_append [simp]:
  "attempts_of k (xs @ ys) = attempts_of k xs @ attempts_of k ys"
  by (simp add: attempts_of_def)

lemma for_engines_Cons_snd:
  "snd (for_engines body ((k, ap) # rest) w) = snd (for_engines body rest (snd (body k ap w)))"
  by (simp add: split_beta)

lemma for_engines_keys:
  "map fst (fst (for_engines body aps w)) = map fst aps"
  by (induction aps arbitrary: w) (auto simp: split_beta)

lemma for_engines_startup_attempts:
  assumes "distinct (map fst aps)" and "\<forall>(k, ap) \<in> set aps. ap_interface ap = k"
  shows "\<exists>x. attempts_of k (actions (snd (for_engines (\<lambda>k. startup_engine (envs k) cfg) aps w)))
               = attempts_of k (actions w) @ x
             \<and> (if k \<in> fst ` set aps
                 then x = [''startup''] \<or> x = [''startup'', ''startup_retry'']
                 else x = [])"
  using assms
proof (induction aps arbitrary: w)
  case Nil
  then show ?case by simp
next
  case (Cons e rest)
  obtain k0 ap0 where e: "e = (k0, ap0)" by (cases e)
  let ?w1 = "snd (startup_engine (envs k0) cfg ap0 w)"
  from Cons.prems e have i: "ap_interface ap0 = k0" and nk: "k0 \<notin> fst ` set rest"
    and d: "distinct (map fst rest)" and a: "\<forall>(k, ap) \<in> set rest. ap_interface ap = k"
    by auto
  have 1: "attempts_of k (actions ?w1) = attempts_of k (actions w) @
             (if k = k0 then (if first_ok (envs k0) ap0 w then [''startup'']
                              else [''startup'', ''startup_retry'']) else [])"
    using startup_engine_new_attempts [of "envs k0" cfg ap0 w] i
    by (simp add: attempts_of_def)
  from Cons.IH [OF d a, of ?w1] obtain x where
    2: "attempts_of k (actions (snd (for_engines (\<lambda>k. startup_engine (envs k) cfg) rest ?w1)))
          = attempts_of k (actions ?w1) @ x"
    and 3: "if k \<in> fst ` set rest then x = [''startup''] \<or> x = [''startup'', ''startup_retry'']
            else x = []"
    by blast
  show ?case
  proof (cases "k = k0")
    case True
    with nk 3 have "x = []" by simp
    with 1 2 True show ?thesis
      by (simp add: e for_engines_Cons_snd del: for_engines.simps)
  next
    case False
    with 1 2 3 show ?thesis
      by (simp add: e for_engines_Cons_snd del: for_engines.simps)
  qed
qed

lemma run_startup_attempts:
  assumes "distinct (map fst (ap_instances d))"
    and "\<forall>(k, ap) \<in> set (ap_instances d). ap_interface ap = k"
  shows "map fst (ap_instances (fst (run_startup envs d w))) = map fst (ap_instances d)
         \<and> (\<exists>x. attempts_of k (actions (snd (run_startup envs d w))) = attempts_of k (actions w) @ x
                \<and> (if k \<in> fst ` set (ap_instances d)
                    then x = [''startup''] \<or> x = [''startup'', ''startup_retry'']
                    else x = []))"
  using for_engines_startup_attempts [OF assms, of k envs "config d" w]
    for_engines_keys [of "\<lambda>k. startup_engine (envs k) (config d)" "ap_instances d" w]
  by (simp add: run_startup_def split_beta)

section \<open>Publishing the status\<close>

lemma open_w_fields [simp]:
  "fs (open_w p w) = (fs w)(p \<mapsto> Text [])" "creds_heap (open_w p w) = creds_heap w"
  "default_interfaces (open_w p w) = default_interfaces w" "actions (open_w p w) = actions w"
  by (simp_all add: open_w_def)

lemma world1_status:
  "load_status (status_file engine1) world1 =
     Some (status_snapshot (env_status_end (calm 0 0)) ''ready'' None engine1 world1)"
proof -
  have r: "env_restart_ok (calm 0 0)"
    by (simp add: calm_def)
  from rotate_succeeded [OF boot_gate r, of "''startup''"] first_rotation
  show ?thesis
    by (auto simp: engine1_eq)
qed

text \<open>
  C3, as the code has it. \<open>update_status\<close> writes the status file in place: it opens the
  file for writing, which leaves it empty, and then puts the new snapshot there; the
  only path it touches is the status file's own, so no temporary file is written and
  renamed. A reader at the end finds the new complete snapshot; a reader between the two
  steps finds an empty file and gets no status from it.
\<close>

theorem update_status_rewrites_in_place:
  "update_status_states p st e ap w = [open_w (status_file ap) w, update_status p st e ap w]
   \<and> fs (open_w (status_file ap) w) = (fs w)(status_file ap \<mapsto> Text [])
   \<and> load_status (status_file ap) (open_w (status_file ap) w) = None
   \<and> fs (update_status p st e ap w) =
        (fs w)(status_file ap \<mapsto> StatusJson (status_snapshot p st e ap w))
   \<and> load_status (status_file ap) (update_status p st e ap w) = Some (status_snapshot p st e ap w)
   \<and> dom (fs (update_status p st e ap w)) = insert (status_file ap) (dom (fs w))"
  by (simp add: update_status_states_def load_status_def)

theorem update_status_rewrites_in_place_witness:
  "load_status (status_file engine1) world1 \<noteq> None
   \<and> load_status (status_file engine1) (hd (update_status_states refresh_probe ''ready'' None engine1 world1)) = None
   \<and> (\<exists>s. load_status (status_file engine1) (last (update_status_states refresh_probe ''ready'' None engine1 world1)) = Some s
          \<and> state s = ''ready'' \<and> client_count s = 3)"
proof -
  have o: "load_status (status_file engine1) world1 \<noteq> None"
    by (simp add: world1_status)
  from update_status_rewrites_in_place [of refresh_probe "''ready''" None engine1 world1] o
  show ?thesis
    by (simp add: refresh_probe_def)
qed

text \<open>
  C3 as the spec words it says a concurrent reader always finds the previous snapshot or
  the new one. While the status of the running \<^verbatim>\<open>wlan0\<close> engine is refreshed there is
  a state of the store in which the reader finds neither.
\<close>

theorem update_status_not_atomic_counterexample:
  "\<exists>w' \<in> set (update_status_states refresh_probe ''ready'' None engine1 world1).
      load_status (status_file engine1) w' \<noteq> load_status (status_file engine1) world1
      \<and> load_status (status_file engine1) w'
          \<noteq> Some (status_snapshot refresh_probe ''ready'' None engine1 world1)"
proof -
  have o: "load_status (status_file engine1) world1 \<noteq> None"
    by (simp add: world1_status)
  have "load_status (status_file engine1) (open_w (status_file engine1) world1) = None"
    by (simp add: load_status_def)
  with o show ?thesis
    by (auto simp: update_status_states_def)
qed

section \<open>The rotation history\<close>

lemma append_capped_positive:
  assumes "0 < n"
  shows "append_capped n e rs = drop (Suc (length rs) - nat n) (rs @ [e])"
  using assms by (auto simp: append_capped_def py_slice_from_def Let_def nat_diff_distrib nat_add_distrib)

lemma append_capped_length:
  "0 < n \<Longrightarrow> int (length (append_capped n e rs)) \<le> n"
  by (auto simp: append_capped_positive)

lemma append_capped_newest:
  "0 < n \<Longrightarrow> last (append_capped n e rs) = e \<and> e \<in> set (append_capped n e rs)"
  by (auto simp: append_capped_def py_slice_from_def Let_def)

lemma append_capped_suffix:
  "0 < n \<Longrightarrow> suffix (append_capped n e rs) (rs @ [e])"
  by (simp add: append_capped_positive suffix_drop)

lemma fold_append_capped:
  assumes "0 < n"
  shows "fold (append_capped n) es [] = drop (length es - nat n) es"
proof -
  have "fold (append_capped n) es rs = drop (length (rs @ es) - nat n) (rs @ es)"
    if "length rs \<le> nat n" for rs
    using that
  proof (induction es arbitrary: rs)
    case Nil
    then show ?case by simp
  next
    case (Cons e es)
    have l: "length (append_capped n e rs) \<le> nat n"
      using append_capped_length [OF assms, of e rs] by simp
    have "fold (append_capped n) (e # es) rs = fold (append_capped n) es (append_capped n e rs)"
      by simp
    also have "\<dots> = drop (length (append_capped n e rs @ es) - nat n) (append_capped n e rs @ es)"
      by (rule Cons.IH [OF l])
    also have "\<dots> = drop (length (rs @ e # es) - nat n) (rs @ e # es)"
    proof (cases "Suc (length rs) \<le> nat n")
      case True
      then show ?thesis
        using assms by (simp add: append_capped_positive)
    next
      case False
      with Cons.prems have eq: "length rs = nat n" by simp
      with assms obtain r rs' where rs: "rs = r # rs'"
        by (cases rs) auto
      from eq have "append_capped n e rs = rs' @ [e]"
        using assms by (simp add: append_capped_positive rs)
      moreover from eq rs have "nat n = Suc (length rs')"
        by simp
      ultimately show ?thesis
        by (simp add: rs)
    qed
    finally show ?case .
  qed
  from this [of "[]"] show ?thesis by simp
qed

text \<open>
  C6 at retention count 0. The cut is \<^verbatim>\<open>rotations[-retention:]\<close>, and \<^verbatim>\<open>rotations[-0:]\<close>
  is the whole list: with retention 0 every append keeps everything. Logging the start-up
  rotation of the \<^verbatim>\<open>wlan0\<close> engine leaves one entry in the history, logging again
  leaves two, where the claim allows none. (For a positive retention count the history is
  the last entries up to that count, as the lemmas above say.)
\<close>

theorem log_rotation_retention_zero:
  "append_capped 0 e rs = rs @ [e]
   \<and> rotations_logged (log_rotation ''t1'' no_retention (creds_heap world1 0) world1)
       = [\<lparr> timestamp = ''t1'', entry_interface = ''wlan0'', entry_ssid = ''ssb-abcdef'',
            reason = ''startup'', entry_created_at = 0 \<rparr>]
   \<and> length (rotations_logged (log_rotation ''t2'' no_retention (creds_heap world1 0)
               (log_rotation ''t1'' no_retention (creds_heap world1 0) world1))) = 2"
proof -
  have a: "append_capped 0 e rs = rs @ [e]" for e :: RotationEntry and rs
    by (simp add: append_capped_def py_slice_from_def Let_def)
  have n: "fs world1 ROTATIONS_LOG_FILE = None"
    using rotate_fs_frame [of ROTATIONS_LOG_FILE engine0 "calm 0 0" "''startup''" boot_world]
    by (simp add: first_rotation engine0_fields ROTATIONS_LOG_FILE_def LOG_DIR_def)
      (simp add: boot_world_def HOSTAPD_TEMPLATE_DIR_def)
  show ?thesis
    by (simp add: a rotations_logged_def log_rotation_def n Let_def no_retention_def
        world1_heap first_credentials)
qed

section \<open>Reloading the configuration\<close>

lemma load_config_frame:
  "fs (snd (load_config w)) = fs w" "creds_heap (snd (load_config w)) = creds_heap w"
  "next_ref (snd (load_config w)) = next_ref w" "actions (snd (load_config w)) = actions w"
  by (simp_all add: load_config_def Let_def split: option.splits content.splits)

lemma handle_reload_frame:
  assumes "handle_reload d w = (d', w')"
  shows "config d' = fst (load_config w) \<and> running d' = running d
         \<and> ap_instances d' = map (\<lambda>(k, ap). (k, ap\<lparr>global_config := config d'\<rparr>)) (ap_instances d)
         \<and> map fst (ap_instances d') = map fst (ap_instances d)
         \<and> length (ap_instances d') = length (ap_instances d)
         \<and> fs w' = fs w \<and> creds_heap w' = creds_heap w \<and> next_ref w' = next_ref w
         \<and> actions w' = actions w"
  using assms load_config_frame [of w]
  by (auto simp: handle_reload_def split_beta)



end
